theory Spec2Isabelle
  imports Complex_Main "HOL-Library.Product_Lexorder"
begin

section \<open>Errors\<close>

text \<open>
  Every \<^verbatim>\<open>raise\<close> of the two modules is a \<^verbatim>\<open>ValueError\<close> carrying a message.
  \<^verbatim>\<open>KeyError\<close> is what pandas raises for a column label that the frame does not
  have, \<^verbatim>\<open>IndexError\<close> what a list raises for a position it does not have, and what
  \<^verbatim>\<open>list.index\<close> raises is again a \<^verbatim>\<open>ValueError\<close>.
  \<open>CollaboratorError\<close> stands for whatever a function outside these two modules raises.
\<close>

datatype error =
    ValueError string
  | KeyError "string list"
  | IndexError string
  | CollaboratorError string

section \<open>Tables\<close>

text \<open>
  A pandas frame as the metric uses it: named columns, and rows that carry an index
  label and one cell per column. A finite float is the real number it denotes; the
  two infinities and the missing value (\<^verbatim>\<open>nan\<close>, \<^verbatim>\<open>None\<close>, \<^verbatim>\<open>NaT\<close>) are cells of
  their own. A timestamp column holds the numbers of its instants.
\<close>

datatype cell = Val real | PosInf | NegInf | NaN

type_synonym row = "int \<times> cell list"

record DataFrame =
  columns :: "string list"
  rows :: "row list"

type_synonym Series = "(int \<times> cell) list"


definition cell_at :: "string list \<Rightarrow> string \<Rightarrow> row \<Rightarrow> cell option" where
  "cell_at cols c r = map_of (zip cols (snd r)) c"

text \<open>\<^verbatim>\<open>df.replace(to_replace, value)\<close>: every cell of every column.\<close>

definition replace_cell :: "cell list \<Rightarrow> cell \<Rightarrow> cell \<Rightarrow> cell" where
  "replace_cell to_replace v c = (if c \<in> set to_replace then v else c)"

definition replace :: "cell list \<Rightarrow> cell \<Rightarrow> DataFrame \<Rightarrow> DataFrame" where
  "replace to_replace v df =
     df\<lparr>rows := map (\<lambda>r. (fst r, map (replace_cell to_replace v) (snd r))) (rows df)\<rparr>"

text \<open>
  \<^verbatim>\<open>df.dropna(axis=0, how="any", subset=...)\<close>: a row goes when one of the cells
  of the subset is missing; a label of the subset that is no column is a \<^verbatim>\<open>KeyError\<close>.
\<close>

definition dropna :: "string list \<Rightarrow> DataFrame \<Rightarrow> error + DataFrame" where
  "dropna subset_labels df =
     (case filter (\<lambda>c. c \<notin> set (columns df)) subset_labels of
        [] \<Rightarrow>
          Inr (df\<lparr>rows :=
            filter (\<lambda>r. list_all (\<lambda>c. cell_at (columns df) c r \<noteq> Some NaN) subset_labels) (rows df)\<rparr>)
      | missing \<Rightarrow> Inl (KeyError missing))"

text \<open>
  \<^verbatim>\<open>df.sort_index()\<close> and \<^verbatim>\<open>df.sort_values(by)\<close>, ascending, missing values last.
  The sort is the stable one; pandas' default kind fixes the order of rows with equal
  keys only up to its sorting routine.
\<close>

definition sort_index :: "DataFrame \<Rightarrow> DataFrame" where
  "sort_index df = df\<lparr>rows := sort_key fst (rows df)\<rparr>"

fun sort_rank :: "cell option \<Rightarrow> nat \<times> real" where
  "sort_rank (Some NegInf) = (0, 0)"
| "sort_rank (Some (Val x)) = (1, x)"
| "sort_rank (Some PosInf) = (2, 0)"
| "sort_rank (Some NaN) = (3, 0)"
| "sort_rank None = (3, 0)"

definition sort_values :: "string \<Rightarrow> DataFrame \<Rightarrow> error + DataFrame" where
  "sort_values by_label df =
     (if by_label \<in> set (columns df)
      then Inr (df\<lparr>rows :=
             sort_key (\<lambda>r. sort_rank (cell_at (columns df) by_label r)) (rows df)\<rparr>)
      else Inl (KeyError [by_label]))"

text \<open>\<^verbatim>\<open>df[label]\<close>: the column as a series, index labels kept.\<close>

definition column_of :: "string list \<Rightarrow> string \<Rightarrow> row list \<Rightarrow> Series" where
  "column_of cols c rs =
     map (\<lambda>r. (fst r, case cell_at cols c r of Some v \<Rightarrow> v | None \<Rightarrow> NaN)) rs"

definition getitem :: "DataFrame \<Rightarrow> string \<Rightarrow> error + Series" where
  "getitem df c =
     (if c \<in> set (columns df) then Inr (column_of (columns df) c (rows df))
      else Inl (KeyError [c]))"

section \<open>The predicted-versus-actual scatter metric\<close>

datatype prediction_name = PredictionColumn string | PredictionColumns "string list"

record DatasetUtilityColumns =
  date :: "string option"
  target :: "string option"
  prediction :: "prediction_name option"

record DatasetColumns =
  utility_columns :: DatasetUtilityColumns

record ('cm, 'dd) InputData =
  reference_data :: "DataFrame option"
  current_data :: DataFrame
  reference_additional_features :: "DataFrame option"
  current_additional_features :: "DataFrame option"
  column_mapping :: 'cm
  data_definition :: 'dd

record Options =
  agg_data :: bool

record PredActualScatter =
  predicted :: Series
  actual :: Series

text \<open>The field \<^verbatim>\<open>data: dict\<close> of the aggregated result, in insertion order.\<close>

record AggPredActualScatter =
  data_dict :: "(string \<times> int) list"

text \<open>\<^verbatim>\<open>Union[PredActualScatter, AggPredActualScatter]\<close>\<close>

datatype scatter = Raw PredActualScatter | Agg AggPredActualScatter

record RegressionPredictedVsActualScatterResults =
  current :: scatter
  reference :: "scatter option"

text \<open>
  The constructor of the result class, called with keyword arguments. The class declares
  the fields \<^verbatim>\<open>current\<close> and \<^verbatim>\<open>reference\<close> (optional, so absent means \<^verbatim>\<open>None\<close>);
  \<^verbatim>\<open>reference_agg\<close> and the other three names are read-only properties, not fields,
  and a keyword that is no field is not stored.
\<close>

definition new_Results ::
  "(string \<times> scatter option) list \<Rightarrow> error + RegressionPredictedVsActualScatterResults" where
  "new_Results kwargs =
     (case map_of kwargs ''current'' of
        Some (Some c) \<Rightarrow>
          Inr \<lparr>current = c,
               reference = (case map_of kwargs ''reference'' of Some r \<Rightarrow> r | None \<Rightarrow> None)\<rparr>
      | _ \<Rightarrow> Inl (ValueError ''current: field required''))"

definition make_df_for_plot ::
  "DataFrame \<Rightarrow> string \<Rightarrow> string \<Rightarrow> string option \<Rightarrow> error + DataFrame" where
  "make_df_for_plot df target_name prediction_name datetime_column_name =
     (let result = replace [PosInf, NegInf] NaN df in
      case datetime_column_name of
        Some dt \<Rightarrow>
          (case dropna [target_name, prediction_name, dt] result of
             Inl e \<Rightarrow> Inl e
           | Inr result' \<Rightarrow> sort_values dt result')
      | None \<Rightarrow>
          (case dropna [target_name, prediction_name] result of
             Inl e \<Rightarrow> Inl e
           | Inr result' \<Rightarrow> Inr (sort_index result')))"

text \<open>\<^verbatim>\<open>PredActualScatter(predicted=df[prediction_name], actual=df[target_name])\<close>\<close>

definition scatter_of :: "DataFrame \<Rightarrow> string \<Rightarrow> string \<Rightarrow> error + PredActualScatter" where
  "scatter_of df target_name prediction_name =
     (case getitem df prediction_name of
        Inl e \<Rightarrow> Inl e
      | Inr p \<Rightarrow>
          (case getitem df target_name of
             Inl e \<Rightarrow> Inl e
           | Inr a \<Rightarrow> Inr \<lparr>predicted = p, actual = a\<rparr>))"

text \<open>
  \<^verbatim>\<open>calculate\<close>. Its first argument is \<^verbatim>\<open>process_columns\<close>, the column-role resolver
  that lives outside the module; the second is what \<^verbatim>\<open>self.get_options()\<close> returns.
\<close>

definition calculate ::
  "(DataFrame \<Rightarrow> 'cm \<Rightarrow> error + DatasetColumns) \<Rightarrow> Options \<Rightarrow> ('cm, 'dd) InputData
     \<Rightarrow> error + RegressionPredictedVsActualScatterResults" where
  "calculate process_columns opts data =
     (case process_columns (current_data data) (column_mapping data) of
        Inl e \<Rightarrow> Inl e
      | Inr dataset_columns \<Rightarrow>
     (let target_name = target (utility_columns dataset_columns);
          prediction_name = prediction (utility_columns dataset_columns);
          curr_df = current_data data;
          ref_df = reference_data data
      in
      case (target_name, prediction_name) of
        (None, _) \<Rightarrow>
          Inl (ValueError ''The columns 'target' and 'prediction' columns should be present'')
      | (Some _, None) \<Rightarrow>
          Inl (ValueError ''The columns 'target' and 'prediction' columns should be present'')
      | (Some _, Some (PredictionColumns _)) \<Rightarrow>
          Inl (ValueError ''Expect one column for prediction. List of columns was provided.'')
      | (Some t, Some (PredictionColumn p)) \<Rightarrow>
          if \<not> agg_data opts then
            (case make_df_for_plot curr_df t p None of
               Inl e \<Rightarrow> Inl e
             | Inr curr_df' \<Rightarrow>
                 (case scatter_of curr_df' t p of
                    Inl e \<Rightarrow> Inl e
                  | Inr current_scatter \<Rightarrow>
                      (case ref_df of
                         None \<Rightarrow>
                           new_Results [(''current'', Some (Raw current_scatter)),
                                        (''reference'', None)]
                       | Some rdf \<Rightarrow>
                           (case make_df_for_plot rdf t p None of
                              Inl e \<Rightarrow> Inl e
                            | Inr ref_df' \<Rightarrow>
                                (case scatter_of ref_df' t p of
                                   Inl e \<Rightarrow> Inl e
                                 | Inr reference_scatter \<Rightarrow>
                                     new_Results [(''current'', Some (Raw current_scatter)),
                                                  (''reference'', Some (Raw reference_scatter))])))))
          else
            (let current_agg = Agg \<lparr>data_dict = [(''a'', 1), (''b'', 2)]\<rparr>;
                 reference_agg =
                   (case ref_df of
                      None \<Rightarrow> None
                    | Some _ \<Rightarrow> Some (Agg \<lparr>data_dict = [(''a'', 5), (''b'', 2)]\<rparr>))
             in new_Results [(''current'', Some current_agg), (''reference_agg'', reference_agg)])))"

section \<open>Reports\<close>

subsection \<open>Specification items\<close>

text \<open>
  What a specification list may hold, in the order \<^verbatim>\<open>run\<close> tests for it: a generator
  (with its \<^verbatim>\<open>str()\<close>, which the error message interpolates, and its \<^verbatim>\<open>generate\<close>),
  a preset (its \<^verbatim>\<open>generate_metrics\<close>), a metric, or any other object (its \<^verbatim>\<open>str()\<close>).
  What a generator or a preset returns is a list of objects again: nothing types it.
\<close>

datatype ('m, 'cm, 'dd) item =
    Generator string "DatasetColumns \<Rightarrow> ('m, 'cm, 'dd) item list"
  | Preset "('cm, 'dd) InputData \<Rightarrow> DatasetColumns \<Rightarrow> ('m, 'cm, 'dd) item list"
  | Metric 'm
  | Other string

subsection \<open>The suite\<close>

text \<open>
  Modelled from the spec: the class \<^verbatim>\<open>Suite\<close> and its \<^verbatim>\<open>Context\<close> are imported from
  \<^verbatim>\<open>evidently.suite.base_suite\<close>. The context is the ordered list of registered
  metrics and their results, stored by position; it is empty when the suite is made
  and after \<^verbatim>\<open>reset\<close>; \<^verbatim>\<open>add_metric\<close> registers a metric at the end;
  \<^verbatim>\<open>run_calculate\<close> executes every registered metric once, in order, and a metric
  that fails aborts the run with no result stored.
\<close>

record ('m, 'cm, 'dd, 'r) Context =
  ctx_metrics :: "('m, 'cm, 'dd) item list"
  metric_results :: "'r list"

record ('m, 'cm, 'dd, 'r) Suite =
  the_context :: "('m, 'cm, 'dd, 'r) Context"

text \<open>
  Modelled from the spec: the context of a suite just made (\<^verbatim>\<open>Suite.__init__\<close>, not in
  this module) holds no metric and no result.
\<close>

definition new_Context :: "('m, 'cm, 'dd, 'r) Context" where
  "new_Context = \<lparr>ctx_metrics = [], metric_results = []\<rparr>"

definition new_Suite :: "('m, 'cm, 'dd, 'r) Suite" where
  "new_Suite = \<lparr>the_context = new_Context\<rparr>"

text \<open>
  Modelled from the spec: \<^verbatim>\<open>Suite.reset\<close>, not in this module, discards the context.
\<close>

definition reset :: "('m, 'cm, 'dd, 'r) Suite \<Rightarrow> ('m, 'cm, 'dd, 'r) Suite" where
  "reset suite = suite\<lparr>the_context := new_Context\<rparr>"

text \<open>
  Modelled from the spec: \<^verbatim>\<open>Suite.add_metric\<close>, not in this module, registers the metric
  after those already registered.
\<close>

definition add_metric ::
  "('m, 'cm, 'dd) item \<Rightarrow> ('m, 'cm, 'dd, 'r) Suite \<Rightarrow> ('m, 'cm, 'dd, 'r) Suite" where
  "add_metric metric suite =
     suite\<lparr>the_context :=
       (the_context suite)\<lparr>ctx_metrics := ctx_metrics (the_context suite) @ [metric]\<rparr>\<rparr>"

text \<open>
  Modelled from the spec: \<^verbatim>\<open>Suite.run_calculate\<close>, not in this module, calls the
  \<^verbatim>\<open>calculate\<close> of every registered metric once, in order, and keeps the results by
  position; the first failure aborts the run and no result is kept.
\<close>

fun calculate_all ::
  "('d \<Rightarrow> 'i \<Rightarrow> error + 'r) \<Rightarrow> 'd \<Rightarrow> 'i list \<Rightarrow> error + 'r list" where
  "calculate_all calc d [] = Inr []"
| "calculate_all calc d (m # ms) =
     (case calc d m of
        Inl e \<Rightarrow> Inl e
      | Inr res \<Rightarrow>
          (case calculate_all calc d ms of
             Inl e \<Rightarrow> Inl e
           | Inr rs \<Rightarrow> Inr (res # rs)))"

definition run_calculate ::
  "(('cm, 'dd) InputData \<Rightarrow> ('m, 'cm, 'dd) item \<Rightarrow> error + 'r) \<Rightarrow> ('cm, 'dd) InputData
     \<Rightarrow> ('m, 'cm, 'dd, 'r) Suite \<Rightarrow> error option \<times> ('m, 'cm, 'dd, 'r) Suite" where
  "run_calculate calc d suite =
     (case calculate_all calc d (ctx_metrics (the_context suite)) of
        Inl e \<Rightarrow> (Some e, suite)
      | Inr rs \<Rightarrow> (None, suite\<lparr>the_context := (the_context suite)\<lparr>metric_results := rs\<rparr>\<rparr>))"

subsection \<open>The report object\<close>

text \<open>
  The attributes of \<^verbatim>\<open>Report\<close> (the leading underscore of the private ones is dropped,
  \<^verbatim>\<open>id\<close> is \<open>report_id\<close>, and the suite's \<^verbatim>\<open>context\<close> is \<open>the_context\<close>). \<^verbatim>\<open>timestamp\<close> is set by the base class \<^verbatim>\<open>Display\<close>.
\<close>

record ('m, 'cm, 'dd, 'r) Report =
  inner_suite :: "('m, 'cm, 'dd, 'r) Suite"
  columns_info :: "DatasetColumns option"
  first_level_metrics :: "('m, 'cm, 'dd) item list"
  report_id :: string
  metrics :: "('m, 'cm, 'dd) item list"
  metadata :: "(string \<times> string) list"
  timestamp :: int

text \<open>
  \<^verbatim>\<open>__init__\<close>. The first two arguments are the values \<^verbatim>\<open>uuid.uuid4()\<close> and the clock
  would give; an absent \<^verbatim>\<open>id\<close>, \<^verbatim>\<open>timestamp\<close> or \<^verbatim>\<open>metadata\<close> is \<open>None\<close>.
  The options are only handed on to the suite and are left out.

  Modelled from the spec: the base class \<^verbatim>\<open>Display\<close>, whose \<^verbatim>\<open>__init__\<close> sets the
  timestamp, is imported from \<^verbatim>\<open>evidently.suite.base_suite\<close>; it keeps the timestamp
  it is given and takes the clock's otherwise.
\<close>

definition new_Report ::
  "string \<Rightarrow> int \<Rightarrow> ('m, 'cm, 'dd) item list \<Rightarrow> int option \<Rightarrow> string option
     \<Rightarrow> (string \<times> string) list option \<Rightarrow> ('m, 'cm, 'dd, 'r) Report" where
  "new_Report uuid4 now metrics_arg timestamp_arg id_arg metadata_arg =
     \<lparr>inner_suite = new_Suite,
      columns_info = None,
      first_level_metrics = [],
      report_id = (case id_arg of Some i \<Rightarrow> i | None \<Rightarrow> uuid4),
      metrics = metrics_arg,
      metadata = (case metadata_arg of Some m \<Rightarrow> m | None \<Rightarrow> []),
      timestamp = (case timestamp_arg of Some t \<Rightarrow> t | None \<Rightarrow> now)\<rparr>"

subsection \<open>run\<close>

text \<open>
  The functions \<^verbatim>\<open>run\<close> calls that live outside the module: the default
  \<^verbatim>\<open>ColumnMapping()\<close>, \<^verbatim>\<open>process_columns\<close>, the suite's \<^verbatim>\<open>verify\<close>,
  \<^verbatim>\<open>create_data_definition\<close>, the suite's \<^verbatim>\<open>create_additional_features\<close> (it
  returns the current features first) and the \<^verbatim>\<open>calculate\<close> of each metric.
\<close>

record ('m, 'cm, 'dd, 'r) collaborators =
  new_ColumnMapping :: 'cm
  process_columns :: "DataFrame \<Rightarrow> 'cm \<Rightarrow> error + DatasetColumns"
  verify :: "('m, 'cm, 'dd, 'r) Suite \<Rightarrow> error option"
  create_data_definition :: "DataFrame option \<Rightarrow> DataFrame \<Rightarrow> 'cm \<Rightarrow> error + 'dd"
  create_additional_features ::
    "('m, 'cm, 'dd, 'r) Suite \<Rightarrow> DataFrame \<Rightarrow> DataFrame option \<Rightarrow> 'dd
       \<Rightarrow> error + (DataFrame option \<times> DataFrame option)"
  metric_calculate :: "('cm, 'dd) InputData \<Rightarrow> ('m, 'cm, 'dd) item \<Rightarrow> error + 'r"

text \<open>
  \<^verbatim>\<open>self._first_level_metrics.append(metric); self._inner_suite.add_metric(metric)\<close>
\<close>

definition append_metric ::
  "('m, 'cm, 'dd) item \<Rightarrow> ('m, 'cm, 'dd, 'r) Report \<Rightarrow> ('m, 'cm, 'dd, 'r) Report" where
  "append_metric metric self =
     self\<lparr>first_level_metrics := first_level_metrics self @ [metric],
          inner_suite := add_metric metric (inner_suite self)\<rparr>"

text \<open>
  The loop over what a top-level generator generated: a metric is appended, anything
  else raises, and what was appended before stays.
\<close>

fun generator_loop ::
  "string \<Rightarrow> ('m, 'cm, 'dd) item list \<Rightarrow> ('m, 'cm, 'dd, 'r) Report
     \<Rightarrow> error option \<times> ('m, 'cm, 'dd, 'r) Report" where
  "generator_loop item_str [] self = (None, self)"
| "generator_loop item_str (metric # rest) self =
     (case metric of
        Metric _ \<Rightarrow> generator_loop item_str rest (append_metric metric self)
      | _ \<Rightarrow> (Some (ValueError (''Incorrect metric type in generator '' @ item_str)), self))"

text \<open>
  The first loop of the preset branch: the local list \<^verbatim>\<open>metrics\<close> is extended by what
  a nested generator generates and gets any other item as it is.
\<close>

fun preset_loop ::
  "DatasetColumns \<Rightarrow> ('m, 'cm, 'dd) item list \<Rightarrow> ('m, 'cm, 'dd) item list
     \<Rightarrow> ('m, 'cm, 'dd) item list" where
  "preset_loop ci [] metrics_acc = metrics_acc"
| "preset_loop ci (metric_item # rest) metrics_acc =
     preset_loop ci rest
       (case metric_item of
          Generator _ generate \<Rightarrow> metrics_acc @ generate ci
        | _ \<Rightarrow> metrics_acc @ [metric_item])"

text \<open>The second loop of the preset branch: every collected item is appended.\<close>

fun append_all ::
  "('m, 'cm, 'dd) item list \<Rightarrow> ('m, 'cm, 'dd, 'r) Report \<Rightarrow> ('m, 'cm, 'dd, 'r) Report" where
  "append_all [] self = self"
| "append_all (metric # rest) self = append_all rest (append_metric metric self)"

text \<open>The loop over \<^verbatim>\<open>self.metrics\<close>.\<close>

fun expand_loop ::
  "DatasetColumns \<Rightarrow> ('cm, 'dd) InputData \<Rightarrow> ('m, 'cm, 'dd) item list
     \<Rightarrow> ('m, 'cm, 'dd, 'r) Report \<Rightarrow> error option \<times> ('m, 'cm, 'dd, 'r) Report" where
  "expand_loop ci d [] self = (None, self)"
| "expand_loop ci d (item # rest) self =
     (case item of
        Generator item_str generate \<Rightarrow>
          (case generator_loop item_str (generate ci) self of
             (Some e, self') \<Rightarrow> (Some e, self')
           | (None, self') \<Rightarrow> expand_loop ci d rest self')
      | Preset generate_metrics \<Rightarrow>
          expand_loop ci d rest (append_all (preset_loop ci (generate_metrics d ci) []) self)
      | Metric _ \<Rightarrow> expand_loop ci d rest (append_metric item self)
      | Other _ \<Rightarrow>
          (Some (ValueError
             ''Incorrect item instead of a metric or metric preset was passed to Report''),
           self))"

text \<open>
  \<^verbatim>\<open>run\<close>. It returns the report as the call leaves it, with the exception raised, if
  any: what was assigned before a \<^verbatim>\<open>raise\<close> stays assigned.
\<close>

definition run ::
  "('m, 'cm, 'dd, 'r) collaborators \<Rightarrow> DataFrame option \<Rightarrow> DataFrame option \<Rightarrow> 'cm option
     \<Rightarrow> ('m, 'cm, 'dd, 'r) Report \<Rightarrow> error option \<times> ('m, 'cm, 'dd, 'r) Report" where
  "run env reference_data_arg current_data_arg column_mapping_arg self =
     (let cm = (case column_mapping_arg of None \<Rightarrow> new_ColumnMapping env | Some c \<Rightarrow> c) in
      case current_data_arg of
        None \<Rightarrow> (Some (ValueError ''Current dataset should be present''), self)
      | Some cur \<Rightarrow>
      (case process_columns env cur cm of
        Inl e \<Rightarrow> (Some e, self)
      | Inr ci \<Rightarrow>
      (let self1 = self\<lparr>columns_info := Some ci\<rparr>;
           self2 = self1\<lparr>inner_suite := reset (inner_suite self1)\<rparr> in
       case verify env (inner_suite self2) of
        Some e \<Rightarrow> (Some e, self2)
      | None \<Rightarrow>
      (case create_data_definition env reference_data_arg cur cm of
        Inl e \<Rightarrow> (Some e, self2)
      | Inr dd \<Rightarrow>
      (let d = \<lparr>reference_data = reference_data_arg, current_data = cur,
                reference_additional_features = None, current_additional_features = None,
                column_mapping = cm, data_definition = dd\<rparr> in
       case expand_loop ci d (metrics self2) self2 of
        (Some e, self3) \<Rightarrow> (Some e, self3)
      | (None, self3) \<Rightarrow>
      (case create_data_definition env reference_data_arg cur cm of
        Inl e \<Rightarrow> (Some e, self3)
      | Inr dd' \<Rightarrow>
      (case create_additional_features env (inner_suite self3) cur reference_data_arg dd' of
        Inl e \<Rightarrow> (Some e, self3)
      | Inr (curr_add, ref_add) \<Rightarrow>
      (let d' = \<lparr>reference_data = reference_data_arg, current_data = cur,
                 reference_additional_features = ref_add,
                 current_additional_features = curr_add,
                 column_mapping = cm, data_definition = dd'\<rparr> in
       case run_calculate (metric_calculate env) d' (inner_suite self3) of
        (err, suite') \<Rightarrow> (err, self3\<lparr>inner_suite := suite'\<rparr>)))))))))"

subsection \<open>Views\<close>

text \<open>
  What the views call outside the module: \<^verbatim>\<open>find_metric_renderer\<close> (given the metric
  and the context whose registry it searches), the metric's \<^verbatim>\<open>get_id\<close>, the found
  renderer's \<^verbatim>\<open>render_json\<close> and \<^verbatim>\<open>render_pandas\<close> (they read the metric's result
  from its context), and \<^verbatim>\<open>pd.concat\<close>.
\<close>

record ('i, 'c, 'rn, 'inc, 'j, 't) view_collaborators =
  find_metric_renderer :: "'i \<Rightarrow> 'c \<Rightarrow> error + 'rn"
  get_id :: "'i \<Rightarrow> string"
  render_json :: "'rn \<Rightarrow> 'c \<Rightarrow> 'i \<Rightarrow> bool \<Rightarrow> 'inc option \<Rightarrow> 'inc option \<Rightarrow> error + 'j"
  render_pandas :: "'rn \<Rightarrow> 'c \<Rightarrow> 'i \<Rightarrow> error + 't"
  pd_concat :: "'t list \<Rightarrow> 't"

text \<open>
  \<^verbatim>\<open>as_dict\<close>: the list under the key \<^verbatim>\<open>"metrics"\<close>, each entry the pair of its
  \<^verbatim>\<open>"metric"\<close> and its \<^verbatim>\<open>"result"\<close>. An absent \<^verbatim>\<open>include\<close> or \<^verbatim>\<open>exclude\<close> is the
  empty dictionary.
\<close>

fun as_dict_loop ::
  "('i, 'c, 'rn, 'inc, 'j, 't) view_collaborators \<Rightarrow> 'c \<Rightarrow> bool \<Rightarrow> (string \<rightharpoonup> 'inc)
     \<Rightarrow> (string \<rightharpoonup> 'inc) \<Rightarrow> 'i list \<Rightarrow> error + (string \<times> 'j) list" where
  "as_dict_loop api ctx include_render inc exc [] = Inr []"
| "as_dict_loop api ctx include_render inc exc (metric # rest) =
     (case find_metric_renderer api metric ctx of
        Inl e \<Rightarrow> Inl e
      | Inr renderer \<Rightarrow>
          (let metric_id = get_id api metric in
           case render_json api renderer ctx metric include_render (inc metric_id) (exc metric_id) of
             Inl e \<Rightarrow> Inl e
           | Inr res \<Rightarrow>
               (case as_dict_loop api ctx include_render inc exc rest of
                  Inl e \<Rightarrow> Inl e
                | Inr ms \<Rightarrow> Inr ((metric_id, res) # ms))))"

definition as_dict ::
  "(('m, 'cm, 'dd) item, ('m, 'cm, 'dd, 'r) Context, 'rn, 'inc, 'j, 't) view_collaborators
     \<Rightarrow> bool \<Rightarrow> (string \<rightharpoonup> 'inc) option \<Rightarrow> (string \<rightharpoonup> 'inc) option
     \<Rightarrow> ('m, 'cm, 'dd, 'r) Report \<Rightarrow> error + (string \<times> 'j) list" where
  "as_dict api include_render include_arg exclude_arg self =
     (let inc = (case include_arg of Some i \<Rightarrow> i | None \<Rightarrow> Map.empty);
          exc = (case exclude_arg of Some x \<Rightarrow> x | None \<Rightarrow> Map.empty)
      in as_dict_loop api (the_context (inner_suite self)) include_render inc exc
           (first_level_metrics self))"

text \<open>
  \<^verbatim>\<open>metrics[metric_id].append(x)\<close> on the \<^verbatim>\<open>defaultdict(list)\<close>: a dictionary keeps
  its keys in the order they were first set.
\<close>

fun group_append :: "string \<Rightarrow> 't \<Rightarrow> (string \<times> 't list) list \<Rightarrow> (string \<times> 't list) list" where
  "group_append k v [] = [(k, [v])]"
| "group_append k v (kv # d) =
     (if fst kv = k then (fst kv, snd kv @ [v]) # d else kv # group_append k v d)"

fun as_pandas_loop ::
  "('i, 'c, 'rn, 'inc, 'j, 't) view_collaborators \<Rightarrow> 'c \<Rightarrow> string option \<Rightarrow> 'i list
     \<Rightarrow> (string \<times> 't list) list \<Rightarrow> error + (string \<times> 't list) list" where
  "as_pandas_loop api ctx group_arg [] metrics_dict = Inr metrics_dict"
| "as_pandas_loop api ctx group_arg (metric # rest) metrics_dict =
     (case find_metric_renderer api metric ctx of
        Inl e \<Rightarrow> Inl e
      | Inr renderer \<Rightarrow>
          (let metric_id = get_id api metric in
           if group_arg \<noteq> None \<and> Some metric_id \<noteq> group_arg
           then as_pandas_loop api ctx group_arg rest metrics_dict
           else
             (case render_pandas api renderer ctx metric of
                Inl e \<Rightarrow> Inl e
              | Inr t \<Rightarrow>
                  as_pandas_loop api ctx group_arg rest (group_append metric_id t metrics_dict))))"

text \<open>\<^verbatim>\<open>Union[Dict[str, pd.DataFrame], pd.DataFrame]\<close>\<close>

datatype 't pandas_view = Frame 't | Frames "(string \<times> 't) list"

definition as_pandas ::
  "(('m, 'cm, 'dd) item, ('m, 'cm, 'dd, 'r) Context, 'rn, 'inc, 'j, 't) view_collaborators
     \<Rightarrow> string option \<Rightarrow> ('m, 'cm, 'dd, 'r) Report \<Rightarrow> error + 't pandas_view" where
  "as_pandas api group_arg self =
     (case as_pandas_loop api (the_context (inner_suite self)) group_arg
             (first_level_metrics self) [] of
        Inl e \<Rightarrow> Inl e
      | Inr metrics_dict \<Rightarrow>
          (let result = map (\<lambda>kv. (fst kv, pd_concat api (snd kv))) metrics_dict in
           if group_arg = None \<and> length result = 1 then Inr (Frame (snd (hd result)))
           else
             (case group_arg of
                None \<Rightarrow> Inr (Frames result)
              | Some g \<Rightarrow>
                  (case map_of result g of
                     None \<Rightarrow>
                       Inl (ValueError (''Metric group '' @ g @ '' not found in this report''))
                   | Some t \<Rightarrow> Inr (Frame t)))))"

subsection \<open>Payloads\<close>

text \<open>
  Modelled from the spec: \<^verbatim>\<open>ContextPayload\<close>, with \<^verbatim>\<open>from_context\<close> and
  \<^verbatim>\<open>to_context\<close>, is imported from \<^verbatim>\<open>evidently.suite.base_suite\<close>. The snapshot
  holds the context's metrics with their results, in registration order, and the
  context is rebuilt from it verbatim.
\<close>

record ('m, 'cm, 'dd, 'r) ContextPayload =
  payload_metrics :: "('m, 'cm, 'dd) item list"
  payload_metric_results :: "'r list"

text \<open>
  Modelled from the spec: \<^verbatim>\<open>ContextPayload.from_context\<close>, not in this module, snapshots
  the metrics and results of the context.
\<close>

definition from_context :: "('m, 'cm, 'dd, 'r) Context \<Rightarrow> ('m, 'cm, 'dd, 'r) ContextPayload" where
  "from_context ctx =
     \<lparr>payload_metrics = ctx_metrics ctx, payload_metric_results = metric_results ctx\<rparr>"

text \<open>
  Modelled from the spec: \<^verbatim>\<open>ContextPayload.to_context\<close>, not in this module, rebuilds the
  context from the snapshot as it is.
\<close>

definition to_context :: "('m, 'cm, 'dd, 'r) ContextPayload \<Rightarrow> ('m, 'cm, 'dd, 'r) Context" where
  "to_context p =
     \<lparr>ctx_metrics = payload_metrics p, metric_results = payload_metric_results p\<rparr>"

text \<open>The fields of \<^verbatim>\<open>_ReportPayload\<close>, prefixed where a report has the same name.\<close>

record ('m, 'cm, 'dd, 'r) ReportPayload =
  payload_id :: string
  suite :: "('m, 'cm, 'dd, 'r) ContextPayload"
  metrics_ids :: "int list"
  payload_timestamp :: int
  payload_metadata :: "(string \<times> string) list"

text \<open>\<^verbatim>\<open>xs.index(x)\<close>: the first position that holds \<open>x\<close>, a \<^verbatim>\<open>ValueError\<close> if none does.\<close>

fun index_of :: "'a list \<Rightarrow> 'a \<Rightarrow> nat option" where
  "index_of [] x = None"
| "index_of (y # ys) x = (if y = x then Some 0 else map_option Suc (index_of ys x))"

fun indices_of :: "'a list \<Rightarrow> 'a list \<Rightarrow> error + int list" where
  "indices_of xs [] = Inr []"
| "indices_of xs (m # rest) =
     (case index_of xs m of
        None \<Rightarrow> Inl (ValueError ''x is not in list'')
      | Some i \<Rightarrow>
          (case indices_of xs rest of
             Inl e \<Rightarrow> Inl e
           | Inr js \<Rightarrow> Inr (int i # js)))"

text \<open>\<^verbatim>\<open>xs[i]\<close>: a negative position counts from the end.\<close>

definition list_getitem :: "'a list \<Rightarrow> int \<Rightarrow> error + 'a" where
  "list_getitem xs i =
     (if 0 \<le> i \<and> i < int (length xs) then Inr (xs ! nat i)
      else if i < 0 \<and> - int (length xs) \<le> i then Inr (xs ! nat (int (length xs) + i))
      else Inl (IndexError ''list index out of range''))"

fun items_at :: "'a list \<Rightarrow> int list \<Rightarrow> error + 'a list" where
  "items_at xs [] = Inr []"
| "items_at xs (i # rest) =
     (case list_getitem xs i of
        Inl e \<Rightarrow> Inl e
      | Inr x \<Rightarrow>
          (case items_at xs rest of
             Inl e \<Rightarrow> Inl e
           | Inr ys \<Rightarrow> Inr (x # ys)))"

definition get_payload ::
  "('m, 'cm, 'dd, 'r) Report \<Rightarrow> error + ('m, 'cm, 'dd, 'r) ReportPayload" where
  "get_payload self =
     (let ctx = the_context (inner_suite self);
          suite_payload = from_context ctx
      in case indices_of (payload_metrics suite_payload) (first_level_metrics self) of
           Inl e \<Rightarrow> Inl e
         | Inr ids \<Rightarrow>
             Inr \<lparr>payload_id = report_id self,
                  suite = suite_payload,
                  metrics_ids = ids,
                  payload_timestamp = timestamp self,
                  payload_metadata = metadata self\<rparr>)"

text \<open>
  \<^verbatim>\<open>_ReportPayload.load\<close>; the first two arguments are those of \<open>new_Report\<close>.
\<close>

definition load ::
  "string \<Rightarrow> int \<Rightarrow> ('m, 'cm, 'dd, 'r) ReportPayload \<Rightarrow> error + ('m, 'cm, 'dd, 'r) Report" where
  "load uuid4 now self =
     (let ctx = to_context (suite self) in
      case items_at (ctx_metrics ctx) (metrics_ids self) of
        Inl e \<Rightarrow> Inl e
      | Inr ms \<Rightarrow>
          (let report = new_Report uuid4 now ms (Some (payload_timestamp self))
                          (Some (payload_id self)) (Some (payload_metadata self));
               report1 = report\<lparr>first_level_metrics := ms\<rparr>
           in Inr (report1\<lparr>inner_suite := (inner_suite report1)\<lparr>the_context := ctx\<rparr>\<rparr>)))"

text \<open>
  \<^verbatim>\<open>_parse_payload\<close>. The dictionary it is given is represented by the payload object
  that \<^verbatim>\<open>parse_obj_as\<close> makes of it.
\<close>

definition parse_payload ::
  "string \<Rightarrow> int \<Rightarrow> ('m, 'cm, 'dd, 'r) ReportPayload \<Rightarrow> error + ('m, 'cm, 'dd, 'r) Report" where
  "parse_payload uuid4 now payload = load uuid4 now payload"

section \<open>Notions the statements use\<close>

subsection \<open>The expansion of a specification list\<close>


text \<open>What an item generated by a preset stands for: a nested generator for what it generates.\<close>

fun nested_expansion :: "DatasetColumns \<Rightarrow> ('m, 'cm, 'dd) item \<Rightarrow> ('m, 'cm, 'dd) item list" where
  "nested_expansion ci (Generator _ generate) = generate ci"
| "nested_expansion ci x = [x]"

text \<open>
  What an item of the specification list stands for: a metric for itself, a generator for
  what it generates, a preset for what it generates with the nested generators expanded
  in place.
\<close>

fun expansion ::
  "DatasetColumns \<Rightarrow> ('cm, 'dd) InputData \<Rightarrow> ('m, 'cm, 'dd) item \<Rightarrow> ('m, 'cm, 'dd) item list" where
  "expansion ci d (Metric m) = [Metric m]"
| "expansion ci d (Generator _ generate) = generate ci"
| "expansion ci d (Preset generate_metrics) =
     concat (map (nested_expansion ci) (generate_metrics d ci))"
| "expansion ci d (Other _) = []"

definition splice ::
  "DatasetColumns \<Rightarrow> ('cm, 'dd) InputData \<Rightarrow> ('m, 'cm, 'dd) item list
     \<Rightarrow> ('m, 'cm, 'dd) item list" where
  "splice ci d items = concat (map (expansion ci d) items)"



definition expansion_input ::
  "DataFrame option \<Rightarrow> DataFrame \<Rightarrow> 'cm \<Rightarrow> 'dd \<Rightarrow> ('cm, 'dd) InputData" where
  "expansion_input ref cur cm dd =
     \<lparr>reference_data = ref, current_data = cur,
      reference_additional_features = None, current_additional_features = None,
      column_mapping = cm, data_definition = dd\<rparr>"

subsection \<open>A scenario\<close>

text \<open>
  A current table with a target and a prediction column, collaborators that succeed, and
  the specification list \<^verbatim>\<open>[MetricA, PresetB, GeneratorC]\<close> where the preset gives
  \<^verbatim>\<open>[MetricD, GeneratorE]\<close>, \<^verbatim>\<open>GeneratorE\<close> gives \<^verbatim>\<open>[MetricF, MetricG]\<close> and
  \<^verbatim>\<open>GeneratorC\<close> gives \<^verbatim>\<open>[MetricH]\<close>. A metric is named by a string.
\<close>

definition scenario_frame :: DataFrame where
  "scenario_frame =
     \<lparr>columns = [''target'', ''prediction''],
      rows = [(0, [Val 1, Val (11 / 10)]), (1, [Val 2, Val (5 / 2)]),
              (2, [Val 3, Val (29 / 10)])]\<rparr>"

definition scenario_columns :: "DataFrame \<Rightarrow> unit \<Rightarrow> error + DatasetColumns" where
  "scenario_columns df cm =
     Inr \<lparr>utility_columns =
       \<lparr>date = (if ''ts'' \<in> set (columns df) then Some ''ts'' else None),
        target = (if ''target'' \<in> set (columns df) then Some ''target'' else None),
        prediction =
          (if ''prediction'' \<in> set (columns df) then Some (PredictionColumn ''prediction'')
           else None)\<rparr>\<rparr>"

definition scenario_env :: "(string, unit, unit, string) collaborators" where
  "scenario_env =
     \<lparr>new_ColumnMapping = (),
      process_columns = scenario_columns,
      verify = (\<lambda>s. None),
      create_data_definition = (\<lambda>ref cur cm. Inr ()),
      create_additional_features = (\<lambda>s cur ref dd. Inr (None, None)),
      metric_calculate =
        (\<lambda>d m. case m of Metric n \<Rightarrow> Inr (''result of '' @ n)
                | _ \<Rightarrow> Inl (CollaboratorError ''no calculate''))\<rparr>"


definition scenario_report ::
  "(string, unit, unit) item list \<Rightarrow> (string, unit, unit, string) Report" where
  "scenario_report spec = new_Report ''1f0e'' 0 spec None None None"

text \<open>
  The column roles of the scenario's table and the input the presets get; a second table
  with no target column; a generator whose metric depends on the target role; and a
  generator that generates something that is no metric.
\<close>

definition scenario_ci :: DatasetColumns where
  "scenario_ci =
     \<lparr>utility_columns = \<lparr>date = None, target = Some ''target'',
          prediction = Some (PredictionColumn ''prediction'')\<rparr>\<rparr>"

definition scenario_input :: "(unit, unit) InputData" where
  "scenario_input = expansion_input None scenario_frame () ()"

definition scenario_frame_no_target :: DataFrame where
  "scenario_frame_no_target =
     \<lparr>columns = [''y'', ''prediction''], rows = [(0, [Val 1, Val (11 / 10)])]\<rparr>"

definition scenario_generator_spec :: "(string, unit, unit) item list" where
  "scenario_generator_spec =
     [Generator ''TargetMetricGenerator''
        (\<lambda>ci. case target (utility_columns ci) of
                Some t \<Rightarrow> [Metric (''metric of '' @ t)]
              | None \<Rightarrow> [Metric ''metric of no target''])]"


subsection \<open>Groups of the tabular view\<close>

text \<open>
  The group names in the order they are first met; whether the view asks a metric for
  its table; the tables of one group, in the order of its metrics.
\<close>

definition first_seen :: "'a list \<Rightarrow> 'a list" where
  "first_seen xs = rev (remdups (rev xs))"

definition wanted :: "('i \<Rightarrow> string) \<Rightarrow> string option \<Rightarrow> 'i \<Rightarrow> bool" where
  "wanted ident group_arg m \<longleftrightarrow> group_arg = None \<or> group_arg = Some (ident m)"

definition tables_of :: "('i \<Rightarrow> string) \<Rightarrow> ('i \<Rightarrow> 't) \<Rightarrow> 'i list \<Rightarrow> string \<Rightarrow> 't list" where
  "tables_of ident tb ms g = map tb (filter (\<lambda>m. ident m = g) ms)"

text \<open>
  Views for the scenario: a metric's id is its name without the last character, its
  table is one row, and tables are concatenated row after row. Two reports that have
  been run, one with the groups \<^verbatim>\<open>Drift\<close> and \<^verbatim>\<open>Quality\<close>, one with \<^verbatim>\<open>Drift\<close> alone.
\<close>

definition scenario_id :: "(string, unit, unit) item \<Rightarrow> string" where
  "scenario_id m = (case m of Metric n \<Rightarrow> butlast n | _ \<Rightarrow> ''no id'')"

definition scenario_views ::
  "((string, unit, unit) item, (string, unit, unit, string) Context, string, unit, string,
    string list) view_collaborators" where
  "scenario_views =
     \<lparr>find_metric_renderer =
        (\<lambda>m ctx. case m of Metric n \<Rightarrow> Inr (''renderer of '' @ butlast n)
                 | _ \<Rightarrow> Inl (CollaboratorError ''no renderer'')),
      get_id = scenario_id,
      render_json = (\<lambda>rn ctx m include_render inc exc. Inr (''json of '' @ scenario_id m)),
      render_pandas =
        (\<lambda>rn ctx m. case m of Metric n \<Rightarrow> Inr [''row of '' @ n]
                   | _ \<Rightarrow> Inl (CollaboratorError ''no table'')),
      pd_concat = concat\<rparr>"

definition scenario_two_groups :: "(string, unit, unit, string) Report" where
  "scenario_two_groups =
     snd (run scenario_env None (Some scenario_frame) None
            (scenario_report [Metric ''Drift1'', Metric ''Quality1'', Metric ''Drift2'']))"

definition scenario_one_group :: "(string, unit, unit, string) Report" where
  "scenario_one_group =
     snd (run scenario_env None (Some scenario_frame) None
            (scenario_report [Metric ''Drift1'', Metric ''Drift2'']))"

subsection \<open>The raw path of the scatter metric\<close>







text \<open>
  What the filter leaves alone: a table with no infinity in any cell, with the columns
  the filter looks at (target, prediction, and the time column when one is given)
  present and free of missing values, and already in the order the filter gives.
\<close>

definition no_infinity :: "DataFrame \<Rightarrow> bool" where
  "no_infinity df \<longleftrightarrow>
     list_all (\<lambda>r. list_all (\<lambda>c. c \<noteq> PosInf \<and> c \<noteq> NegInf) (snd r)) (rows df)"

definition no_missing :: "string list \<Rightarrow> DataFrame \<Rightarrow> bool" where
  "no_missing labels df \<longleftrightarrow>
     list_all (\<lambda>c. c \<in> set (columns df)) labels
     \<and> list_all (\<lambda>r. list_all (\<lambda>c. cell_at (columns df) c r \<noteq> Some NaN) labels) (rows df)"

definition in_order :: "string option \<Rightarrow> DataFrame \<Rightarrow> bool" where
  "in_order datetime_column_name df \<longleftrightarrow>
     (case datetime_column_name of
        None \<Rightarrow> sorted (map fst (rows df))
      | Some dt \<Rightarrow> sorted (map (\<lambda>r. sort_rank (cell_at (columns df) dt r)) (rows df)))"

definition plot_labels :: "string \<Rightarrow> string \<Rightarrow> string option \<Rightarrow> string list" where
  "plot_labels t p datetime_column_name =
     (case datetime_column_name of None \<Rightarrow> [t, p] | Some dt \<Rightarrow> [t, p, dt])"






section \<open>Properties of run\<close>












text \<open>
  C6. Called with no current data, \<^verbatim>\<open>run\<close> fails with the error for missing current
  data (the \<^verbatim>\<open>ValueError\<close> with the message below), and it fails before the suite is
  reset and before anything is expanded: the report, and with it the context of an
  earlier run, is left exactly as it was.
\<close>

theorem run_without_current_data:
  "run env ref None cmo self = (Some (ValueError ''Current dataset should be present''), self)"
  by (simp add: run_def)



lemmas scenario_run_defs = run_def scenario_env_def scenario_columns_def scenario_frame_def
  scenario_report_def new_Report_def new_Suite_def new_Context_def reset_def Let_def
  append_metric_def add_metric_def run_calculate_def

text \<open>
  C4. Running twice: the second \<^verbatim>\<open>run\<close> resets the suite, whose context then holds the
  one expansion, but the first-level list is only ever appended to and is not emptied.
  For the list \<^verbatim>\<open>[MetricA]\<close>, run twice on the same table, the expansion is
  \<^verbatim>\<open>[MetricA]\<close>, the context holds \<^verbatim>\<open>[MetricA]\<close>, and the first-level list holds
  the metric twice.
\<close>

theorem rerun_accumulates:
  "first_level_metrics (snd (run scenario_env None (Some scenario_frame) None
      (snd (run scenario_env None (Some scenario_frame) None
         (scenario_report [Metric ''MetricA''])))))
     = [Metric ''MetricA'', Metric ''MetricA'']
   \<and> ctx_metrics (the_context (inner_suite (snd (run scenario_env None (Some scenario_frame) None
      (snd (run scenario_env None (Some scenario_frame) None
         (scenario_report [Metric ''MetricA''])))))))
     = [Metric ''MetricA'']
   \<and> splice scenario_ci scenario_input (metrics (scenario_report [Metric ''MetricA'']))
     = [Metric ''MetricA'']"
  by (simp add: scenario_run_defs splice_def)

text \<open>
  C7. An item that is no metric, preset or generator makes \<^verbatim>\<open>run\<close> fail, but the
  message is one fixed text: it is the same for two different offending items, and
  names neither.
\<close>

theorem invalid_item_message:
  "fst (run scenario_env None (Some scenario_frame) None (scenario_report [Other ''42'']))
     = Some (ValueError
         ''Incorrect item instead of a metric or metric preset was passed to Report'')
   \<and> fst (run scenario_env None (Some scenario_frame) None
          (scenario_report [Other ''a dict'']))
     = Some (ValueError
         ''Incorrect item instead of a metric or metric preset was passed to Report'')"
  by (simp add: scenario_run_defs)



section \<open>Properties of the payload\<close>

lemma index_of_Some: "index_of xs x = Some i \<Longrightarrow> i < length xs \<and> xs ! i = x"
proof (induction xs arbitrary: i)
  case Nil
  then show ?case by simp
next
  case (Cons y ys)
  then show ?case by (auto split: if_splits)
qed

lemma index_of_None: "index_of xs x = None \<longleftrightarrow> x \<notin> set xs"
  by (induction xs) auto

lemma list_getitem_index: "index_of xs x = Some i \<Longrightarrow> list_getitem xs (int i) = Inr x"
  using index_of_Some[of xs x i] by (simp add: list_getitem_def)

lemma items_at_indices: "indices_of xs ms = Inr ids \<Longrightarrow> items_at xs ids = Inr ms"
proof (induction ms arbitrary: ids)
  case Nil
  then show ?case by simp
next
  case (Cons m ms)
  then show ?case
    by (auto split: option.splits sum.splits simp: list_getitem_index)
qed

lemma indices_of_total: "set ms \<subseteq> set xs \<Longrightarrow> \<exists>ids. indices_of xs ms = Inr ids"
proof (induction ms)
  case Nil
  show ?case by simp
next
  case (Cons m ms)
  then obtain ids where "indices_of xs ms = Inr ids" by auto
  moreover from Cons.prems obtain i where "index_of xs m = Some i"
    using index_of_None[of xs m] by (cases "index_of xs m") auto
  ultimately show ?case by simp
qed

lemma to_context_from_context: "to_context (from_context ctx) = ctx"
  by (cases ctx) (simp add: to_context_def from_context_def)

text \<open>
  Whenever \<^verbatim>\<open>_get_payload\<close> returns a payload, \<^verbatim>\<open>_parse_payload\<close> makes of it a
  report with the same id, timestamp, metadata, first-level metrics and context, hence
  the same structured view. It takes no collaborator of \<^verbatim>\<open>run\<close>, so no
  \<^verbatim>\<open>calculate\<close>.
\<close>

lemma payload_roundtrip:
  assumes "get_payload self = Inr p"
  shows "\<exists>self'. parse_payload uuid4 now p = Inr self'
           \<and> report_id self' = report_id self
           \<and> timestamp self' = timestamp self
           \<and> metadata self' = metadata self
           \<and> first_level_metrics self' = first_level_metrics self
           \<and> the_context (inner_suite self') = the_context (inner_suite self)
           \<and> as_dict api include_render inc exc self' = as_dict api include_render inc exc self"
proof -
  from assms obtain ids where
    ids: "indices_of (ctx_metrics (the_context (inner_suite self))) (first_level_metrics self)
            = Inr ids"
    and p: "p = \<lparr>payload_id = report_id self,
                  suite = from_context (the_context (inner_suite self)),
                  metrics_ids = ids,
                  payload_timestamp = timestamp self,
                  payload_metadata = metadata self\<rparr>"
    by (auto simp: get_payload_def Let_def from_context_def split: sum.splits)
  have recovered: "items_at (ctx_metrics (the_context (inner_suite self))) ids
                = Inr (first_level_metrics self)"
    using ids by (rule items_at_indices)
  show ?thesis
    using recovered
    by (simp add: p parse_payload_def load_def to_context_from_context new_Report_def
        new_Suite_def as_dict_def)
qed

text \<open>A payload exists when every first-level metric is registered in the context.\<close>

lemma payload_exists:
  assumes "set (first_level_metrics self) \<subseteq> set (ctx_metrics (the_context (inner_suite self)))"
  shows "\<exists>p. get_payload self = Inr p"
  using indices_of_total[OF assms] by (auto simp: get_payload_def from_context_def Let_def)

text \<open>
  C1. A report run twice, both runs succeeding, on tables for which its generator
  generates different metrics: the first-level list still holds the metric of the first
  run, the context, reset, does not, and \<^verbatim>\<open>_get_payload\<close> raises instead of making
  a payload.
\<close>

theorem payload_after_rerun:
  "fst (run scenario_env None (Some scenario_frame) None
          (scenario_report scenario_generator_spec)) = None
   \<and> fst (run scenario_env None (Some scenario_frame_no_target) None
          (snd (run scenario_env None (Some scenario_frame) None
             (scenario_report scenario_generator_spec)))) = None
   \<and> get_payload (snd (run scenario_env None (Some scenario_frame_no_target) None
          (snd (run scenario_env None (Some scenario_frame) None
             (scenario_report scenario_generator_spec)))))
       = Inl (ValueError ''x is not in list'')"
  by (simp add: scenario_run_defs scenario_generator_spec_def scenario_frame_no_target_def
      get_payload_def from_context_def)

section \<open>Properties of the tabular view\<close>

lemma first_seen_snoc:
  "first_seen (xs @ [x]) = (if x \<in> set xs then first_seen xs else first_seen xs @ [x])"
  by (simp add: first_seen_def)

lemma set_first_seen: "set (first_seen xs) = set xs"
  by (simp add: first_seen_def)

lemma distinct_first_seen: "distinct (first_seen xs)"
  by (simp add: first_seen_def)

lemma as_pandas_loop_fold:
  assumes "list_all (\<lambda>m. find_metric_renderer api m ctx = Inr (rn m)) ms"
    and "list_all (\<lambda>m. wanted (get_id api) g m \<longrightarrow> render_pandas api (rn m) ctx m = Inr (tb m)) ms"
  shows "as_pandas_loop api ctx g ms acc =
           Inr (fold (\<lambda>m. group_append (get_id api m) (tb m)) (filter (wanted (get_id api) g) ms) acc)"
  using assms
proof (induction ms arbitrary: acc)
  case Nil
  show ?case by simp
next
  case (Cons m ms)
  then show ?case by (auto simp: wanted_def Let_def)
qed

lemma group_append_map:
  "distinct ks \<Longrightarrow>
   group_append k v (map (\<lambda>k'. (k', F k')) ks) =
     (if k \<in> set ks then map (\<lambda>k'. (k', if k' = k then F k' @ [v] else F k')) ks
      else map (\<lambda>k'. (k', F k')) ks @ [(k, [v])])"
  by (induction ks) auto

lemma fold_group_append:
  "fold (\<lambda>m. group_append (f m) (tb m)) ms [] =
     map (\<lambda>k. (k, tables_of f tb ms k)) (first_seen (map f ms))"
proof (induction ms rule: rev_induct)
  case Nil
  show ?case by (simp add: first_seen_def)
next
  case (snoc m ms)
  show ?case
    by (auto simp add: snoc.IH group_append_map distinct_first_seen first_seen_snoc set_first_seen
        tables_of_def filter_empty_conv image_iff)
qed

lemma first_seen_single: "first_seen (map f (filter (\<lambda>m. f m = g) ms)) = (if g \<in> f ` set ms then [g] else [])"
proof (induction ms rule: rev_induct)
  case Nil
  show ?case by (simp add: first_seen_def)
next
  case (snoc m ms)
  then show ?case by (auto simp: first_seen_snoc image_iff)
qed

text \<open>
  C8. When every first-level metric has a renderer and every metric the view asks renders
  its table: with no group requested, \<^verbatim>\<open>as_pandas\<close> returns the table of the single
  group when there is exactly one group, and otherwise the mapping from each group name,
  in the order first met, to the concatenation of that group's tables; with a group
  requested that no first-level metric has, it fails with the group-not-found error (the
  \<^verbatim>\<open>ValueError\<close> naming the group); with a group requested that exists, it returns the
  concatenation of that group's tables.
\<close>

theorem as_pandas_dispatch:
  assumes found: "list_all (\<lambda>m. find_metric_renderer api m (the_context (inner_suite self)) = Inr (rn m))
                    (first_level_metrics self)"
    and rendered: "list_all (\<lambda>m. wanted (get_id api) group_arg m \<longrightarrow>
                      render_pandas api (rn m) (the_context (inner_suite self)) m = Inr (tb m))
                    (first_level_metrics self)"
  shows "as_pandas api group_arg self =
    (case group_arg of
       None \<Rightarrow>
         (case first_seen (map (get_id api) (first_level_metrics self)) of
            [g] \<Rightarrow> Inr (Frame (pd_concat api (tables_of (get_id api) tb (first_level_metrics self) g)))
          | gs \<Rightarrow> Inr (Frames (map (\<lambda>g. (g, pd_concat api
                     (tables_of (get_id api) tb (first_level_metrics self) g))) gs)))
     | Some g \<Rightarrow>
         if g \<in> set (map (get_id api) (first_level_metrics self))
         then Inr (Frame (pd_concat api (tables_of (get_id api) tb (first_level_metrics self) g)))
         else Inl (ValueError (''Metric group '' @ g @ '' not found in this report'')))"
proof (cases group_arg)
  case None
  have all: "filter (wanted (get_id api) None) ms = ms" for ms :: "('a, 'b, 'c) item list"
    by (simp add: wanted_def)
  show ?thesis
    using as_pandas_loop_fold[OF found rendered, of "[]"]
    by (simp add: None as_pandas_def all fold_group_append o_def split: list.splits)
next
  case (Some g)
  have sel: "filter (wanted (get_id api) (Some g)) ms = filter (\<lambda>m. get_id api m = g) ms"
    for ms :: "('a, 'b, 'c) item list"
    by (rule filter_cong) (auto simp: wanted_def)
  have same: "tables_of (get_id api) tb (filter (\<lambda>m. get_id api m = g) ms) g = tables_of (get_id api) tb ms g"
    for ms :: "('a, 'b, 'c) item list"
    by (simp add: tables_of_def)
  show ?thesis
    using as_pandas_loop_fold[OF found rendered, of "[]"]
    by (auto simp add: Some as_pandas_def sel fold_group_append o_def first_seen_single same)
qed

lemma scenario_two_groups_metrics:
  "first_level_metrics scenario_two_groups =
     [Metric ''Drift1'', Metric ''Quality1'', Metric ''Drift2'']"
  by (simp add: scenario_two_groups_def scenario_run_defs)

lemma scenario_one_group_metrics:
  "first_level_metrics scenario_one_group = [Metric ''Drift1'', Metric ''Drift2'']"
  by (simp add: scenario_one_group_def scenario_run_defs)

lemma scenario_views_fields:
  "find_metric_renderer scenario_views (Metric n) ctx = Inr (''renderer of '' @ butlast n)"
  "render_pandas scenario_views rn ctx (Metric n) = Inr [''row of '' @ n]"
  "get_id scenario_views = scenario_id"
  "pd_concat scenario_views = concat"
  by (simp_all add: scenario_views_def)

theorem as_pandas_dispatch_witness:
  "as_pandas scenario_views None scenario_one_group =
     Inr (Frame [''row of Drift1'', ''row of Drift2''])
   \<and> as_pandas scenario_views None scenario_two_groups =
     Inr (Frames [(''Drift'', [''row of Drift1'', ''row of Drift2'']),
                  (''Quality'', [''row of Quality1''])])
   \<and> as_pandas scenario_views (Some ''Quality'') scenario_two_groups =
     Inr (Frame [''row of Quality1''])
   \<and> as_pandas scenario_views (Some ''Accuracy'') scenario_two_groups =
     Inl (ValueError ''Metric group Accuracy not found in this report'')"
proof -
  let ?rn = "\<lambda>m. ''renderer of '' @ scenario_id m"
  let ?tb = "\<lambda>m. [''row of '' @ (case m of Metric n \<Rightarrow> n | _ \<Rightarrow> [])]"
  have one: "as_pandas scenario_views None scenario_one_group =
      Inr (Frame [''row of Drift1'', ''row of Drift2''])"
    using as_pandas_dispatch[of scenario_views scenario_one_group ?rn None ?tb]
    by (simp add: scenario_one_group_metrics scenario_views_fields scenario_id_def wanted_def
        first_seen_def tables_of_def)
  have two: "as_pandas scenario_views None scenario_two_groups =
      Inr (Frames [(''Drift'', [''row of Drift1'', ''row of Drift2'']),
                   (''Quality'', [''row of Quality1''])])"
    using as_pandas_dispatch[of scenario_views scenario_two_groups ?rn None ?tb]
    by (simp add: scenario_two_groups_metrics scenario_views_fields scenario_id_def wanted_def
        first_seen_def tables_of_def)
  have asked: "as_pandas scenario_views (Some ''Quality'') scenario_two_groups =
      Inr (Frame [''row of Quality1''])"
    using as_pandas_dispatch[of scenario_views scenario_two_groups ?rn "Some ''Quality''" ?tb]
    by (simp add: scenario_two_groups_metrics scenario_views_fields scenario_id_def wanted_def
        first_seen_def tables_of_def)
  have missing: "as_pandas scenario_views (Some ''Accuracy'') scenario_two_groups =
      Inl (ValueError ''Metric group Accuracy not found in this report'')"
    using as_pandas_dispatch[of scenario_views scenario_two_groups ?rn "Some ''Accuracy''" ?tb]
    by (simp add: scenario_two_groups_metrics scenario_views_fields scenario_id_def wanted_def
        first_seen_def tables_of_def)
  show ?thesis using one two asked missing by simp
qed

section \<open>Properties of the scatter metric\<close>

lemma replace_no_infinity: "no_infinity df \<Longrightarrow> replace [PosInf, NegInf] NaN df = df"
proof -
  assume ni: "no_infinity df"
  have "map (\<lambda>r. (fst r, map (replace_cell [PosInf, NegInf] NaN) (snd r))) (rows df) = rows df"
  proof (rule map_idI)
    fix r assume "r \<in> set (rows df)"
    with ni have "list_all (\<lambda>c. c \<noteq> PosInf \<and> c \<noteq> NegInf) (snd r)"
      by (simp add: no_infinity_def list_all_iff)
    then have "map (replace_cell [PosInf, NegInf] NaN) (snd r) = snd r"
      by (intro map_idI) (auto simp: list_all_iff replace_cell_def)
    then show "(fst r, map (replace_cell [PosInf, NegInf] NaN) (snd r)) = r"
      by simp
  qed
  then show ?thesis by (simp add: replace_def)
qed

lemma dropna_no_missing: "no_missing labels df \<Longrightarrow> dropna labels df = Inr df"
proof -
  assume nm: "no_missing labels df"
  then have "filter (\<lambda>c. c \<notin> set (columns df)) labels = []"
    by (simp add: no_missing_def list_all_iff filter_empty_conv)
  moreover have "filter (\<lambda>r. list_all (\<lambda>c. cell_at (columns df) c r \<noteq> Some NaN) labels) (rows df)
      = rows df"
    using nm by (simp add: no_missing_def list_all_iff)
  ultimately show ?thesis by (simp add: dropna_def)
qed

lemma make_df_for_plot_unchanged:
  assumes "no_infinity df"
    and "no_missing (plot_labels t p dt) df"
    and "in_order dt df"
  shows "make_df_for_plot df t p dt = Inr df"
proof (cases dt)
  case None
  then show ?thesis
    using assms
    by (simp add: make_df_for_plot_def replace_no_infinity dropna_no_missing plot_labels_def
        in_order_def sort_index_def sort_key_id_if_sorted)
next
  case (Some c)
  then have "c \<in> set (columns df)"
    using assms(2) by (simp add: no_missing_def plot_labels_def)
  then show ?thesis
    using assms Some
    by (simp add: make_df_for_plot_def replace_no_infinity dropna_no_missing plot_labels_def
        in_order_def sort_values_def sort_key_id_if_sorted)
qed

lemma replaced_no_infinity:
  "no_infinity (replace [PosInf, NegInf] NaN df)"
  by (auto simp add: no_infinity_def replace_def list_all_iff replace_cell_def)

lemma dropna_result:
  assumes "dropna labels df = Inr df'"
  shows "columns df' = columns df" and "set (rows df') \<subseteq> set (rows df)"
    and "no_missing labels df'"
proof -
  from assms have none: "filter (\<lambda>c. c \<notin> set (columns df)) labels = []"
    and df': "df' = df\<lparr>rows := filter (\<lambda>r. list_all (\<lambda>c. cell_at (columns df) c r \<noteq> Some NaN)
                 labels) (rows df)\<rparr>"
    by (auto simp: dropna_def split: list.splits)
  show "columns df' = columns df" and "set (rows df') \<subseteq> set (rows df)"
    by (auto simp: df')
  show "no_missing labels df'"
    using none by (auto simp: df' no_missing_def list_all_iff filter_empty_conv)
qed

text \<open>
  Filtering what the filter returned changes nothing.
\<close>

lemma make_df_for_plot_idempotent:
  assumes "make_df_for_plot df t p dt = Inr df'"
  shows "make_df_for_plot df' t p dt = Inr df'"
proof -
  let ?r = "replace [PosInf, NegInf] NaN df"
  from assms obtain dropped where
    dropped: "dropna (plot_labels t p dt) ?r = Inr dropped"
    and sorted_df: "(case dt of None \<Rightarrow> Inr (sort_index dropped) | Some c \<Rightarrow> sort_values c dropped)
        = Inr df'"
    by (auto simp: make_df_for_plot_def plot_labels_def Let_def split: option.splits sum.splits)
  note d = dropna_result[OF dropped]
  have cols: "columns df' = columns dropped" and rows: "set (rows df') = set (rows dropped)"
    and ord: "in_order dt df'"
    using sorted_df
    by (auto simp: sort_index_def sort_values_def in_order_def split: option.splits if_splits)
  have "no_infinity dropped"
    using replaced_no_infinity[of df] d(2) by (auto simp: no_infinity_def list_all_iff)
  then have ni: "no_infinity df'"
    using rows by (simp add: no_infinity_def list_all_iff)
  have nm: "no_missing (plot_labels t p dt) df'"
    using d(3) cols rows by (simp add: no_missing_def list_all_iff)
  show ?thesis
    using ni nm ord by (rule make_df_for_plot_unchanged)
qed




















text \<open>
  The branch of the result is the one \<^verbatim>\<open>agg_data\<close> selects, and on the aggregated path
  the reference side is always absent.
\<close>

lemma calculate_branch:
  assumes "calculate pc opts d = Inr r"
  shows "(case current r of Agg _ \<Rightarrow> agg_data opts | Raw _ \<Rightarrow> \<not> agg_data opts)"
  using assms
  by (auto simp: calculate_def new_Results_def Let_def
      split: sum.splits option.splits prediction_name.splits if_splits)

lemma calculate_aggregated_reference:
  assumes "agg_data opts" and "calculate pc opts d = Inr r"
  shows "reference r = None"
  using assms
  by (auto simp: calculate_def new_Results_def Let_def
      split: sum.splits option.splits prediction_name.splits if_splits)

text \<open>
  C3. With \<^verbatim>\<open>agg_data\<close> true and a reference table present, the result carries the
  aggregated current side and no reference side at all: the aggregated reference is
  passed under the keyword \<^verbatim>\<open>reference_agg\<close>, which is no field of the result. With
  \<^verbatim>\<open>agg_data\<close> false the same input gives a raw reference side.
\<close>

theorem aggregated_path_drops_reference:
  "calculate scenario_columns \<lparr>agg_data = True\<rparr>
       (expansion_input (Some scenario_frame) scenario_frame () ())
     = Inr \<lparr>current = Agg \<lparr>data_dict = [(''a'', 1), (''b'', 2)]\<rparr>, reference = None\<rparr>
   \<and> map_sum id reference (calculate scenario_columns \<lparr>agg_data = False\<rparr>
       (expansion_input (Some scenario_frame) scenario_frame () ()))
     = Inr (Some (Raw \<lparr>predicted = [(0, Val (11 / 10)), (1, Val (5 / 2)), (2, Val (29 / 10))],
                       actual = [(0, Val 1), (1, Val 2), (2, Val 3)]\<rparr>))"
  by (simp add: scenario_columns_def scenario_frame_def
      expansion_input_def calculate_def make_df_for_plot_def replace_def replace_cell_def
      dropna_def sort_index_def scatter_of_def getitem_def column_of_def cell_at_def
      new_Results_def)

end
